theory Spec2Isabelle
  imports Main "HOL-Library.Sublist"
begin

section \<open>Typed application errors and their handlers (fastapi\_errors/errors.py)\<close>

text \<open>
  The module defines two exception base classes, one handler factory per base class and a
  routine that registers error classes with a Starlette application. The embedding below
  follows errors.py function by function.

  Conventions of the embedding:
  \<^item> A Python exception is a value of the type \<open>failure\<close>; a call that may raise returns
    \<open>failure + 'a\<close>, with \<open>Inl\<close> for the raised exception. \<open>WebSocketException\<close> is
    Starlette's exception, with its close code and its reason; \<open>OtherException\<close> is any
    exception that user code raises from a hook.
  \<^item> A coroutine that may have side effects is a function from the state of the
    surroundings \<open>'w\<close> (logs, metrics, whatever user code touches) to its outcome and
    the state it leaves behind. \<open>await\<close> runs it to completion.
  \<^item> \<open>'v\<close> is the type of the context values (\<open>Any\<close> in the source), \<open>'c\<close> the type of
    the request or websocket object handed to hooks and handlers. Neither is inspected
    by the module.
\<close>

subsection \<open>Exceptions\<close>

datatype failure =
    TypeError string
  | AttributeError string
  | WebSocketException int "string option"
  | OtherException string

type_synonym ('a, 'w) coroutine = "'w \<Rightarrow> (failure + 'a) \<times> 'w"

subsection \<open>Error classes and their instances\<close>

text \<open>
  An error class, as far as the module looks at it: its \<open>__name__\<close>, whether it derives
  from \<open>BaseHTTPError\<close> and from \<open>BaseWebSocketError\<close> (a class may derive from both),
  the class attributes the two bases announce, and the \<open>hook\<close> method.
  \<open>status_code\<close>, \<open>message\<close> and \<open>code\<close> are annotated without a value in the bases, so a
  class has them only when it, or an ancestor, assigns them: \<open>None\<close> stands for a missing
  attribute, whose lookup raises \<open>AttributeError\<close>. \<open>reason\<close> has the default \<open>None\<close> in
  \<open>BaseWebSocketError\<close>; here \<open>None\<close> is Python's \<open>None\<close>. The field is read only behind a
  successful \<open>isinstance\<close> check against \<open>BaseWebSocketError\<close>.

  The hook receives the instance data (the context), the request or websocket, and the
  state of the surroundings; it returns or raises, and leaves a state behind. An error
  object is a value: a hook does not reassign attributes of the object it is called on.
\<close>

record ('v, 'c, 'w) error_cls =
  cls_name :: string
  derives_BaseHTTPError :: bool
  derives_BaseWebSocketError :: bool
  status_code :: "int option"
  message :: "string option"
  code :: "int option"
  reason :: "string option"
  hook :: "(string \<rightharpoonup> 'v) \<Rightarrow> 'c \<Rightarrow> (unit, 'w) coroutine"

text \<open>
  An exception object: its class and, for instances built by \<open>BaseHTTPError.__init__\<close>,
  the keyword arguments stored as \<open>self.context\<close>. (\<open>Exception.args\<close> is read by none of
  the operations below and is left out.)
\<close>

record ('v, 'c, 'w) exc =
  cls :: "('v, 'c, 'w) error_cls"
  "context" :: "string \<rightharpoonup> 'v"

definition ERROR_TYPE_HEADER :: string where
  "ERROR_TYPE_HEADER = ''X-Error-Type''"

text \<open>\<open>async def hook(self, request): return\<close>, the same in both base classes.\<close>

definition default_hook :: "(string \<rightharpoonup> 'v) \<Rightarrow> 'c \<Rightarrow> (unit, 'w) coroutine" where
  "default_hook self request w = (Inr (), w)"

text \<open>The two base classes themselves. A subclass is a record update of its base.\<close>

definition BaseHTTPError :: "('v, 'c, 'w) error_cls" where
  "BaseHTTPError =
     \<lparr>cls_name = ''BaseHTTPError'',
      derives_BaseHTTPError = True, derives_BaseWebSocketError = False,
      status_code = None, message = None, code = None, reason = None,
      hook = default_hook\<rparr>"

definition BaseWebSocketError :: "('v, 'c, 'w) error_cls" where
  "BaseWebSocketError =
     \<lparr>cls_name = ''BaseWebSocketError'',
      derives_BaseHTTPError = False, derives_BaseWebSocketError = True,
      status_code = None, message = None, code = None, reason = None,
      hook = default_hook\<rparr>"

definition isinstance_BaseHTTPError :: "('v, 'c, 'w) exc \<Rightarrow> bool" where
  "isinstance_BaseHTTPError error = derives_BaseHTTPError (cls error)"

definition isinstance_BaseWebSocketError :: "('v, 'c, 'w) exc \<Rightarrow> bool" where
  "isinstance_BaseWebSocketError error = derives_BaseWebSocketError (cls error)"

subsection \<open>BaseHTTPError\<close>

text \<open>
  \<open>__init__(self, **context)\<close>: reads \<open>self.__class__.message\<close> for the call of
  \<open>super().__init__\<close>, then stores the keyword arguments. The first argument is the
  class being instantiated, a class of the request family; the second is the dictionary
  that the call has bound to \<open>**context\<close>.
\<close>

definition BaseHTTPError_init ::
  "('v, 'c, 'w) error_cls \<Rightarrow> (string \<rightharpoonup> 'v) \<Rightarrow> failure + ('v, 'c, 'w) exc" where
  "BaseHTTPError_init c kwargs =
     (case message c of
        None \<Rightarrow> Inl (AttributeError ''message'')
      | Some m \<Rightarrow> Inr \<lparr>cls = c, context = kwargs\<rparr>)"

definition name :: "('v, 'c, 'w) exc \<Rightarrow> string" where
  "name self = cls_name (cls self)"

text \<open>The values of the dictionary that \<open>to_dict\<close> returns: a string and a dictionary.\<close>

datatype 'v pyvalue = PyStr string | PyDict "string \<rightharpoonup> 'v"

definition to_dict :: "('v, 'c, 'w) exc \<Rightarrow> failure + (string \<rightharpoonup> 'v pyvalue)" where
  "to_dict self =
     (case message (cls self) of
        None \<Rightarrow> Inl (AttributeError ''message'')
      | Some m \<Rightarrow> Inr [''message'' \<mapsto> PyStr m, ''context'' \<mapsto> PyDict (context self)])"

text \<open>
  Modelled from the spec: \<open>JSONResponse\<close> is Starlette's class and is not part of the
  repository. The spec describes the response by its JSON body, its status code and its
  headers, so the response is the record of the three arguments of the constructor; the
  rendering of the body to bytes and the headers Starlette adds by itself are outside.
\<close>

record 'v response =
  response_body :: "string \<rightharpoonup> 'v pyvalue"
  response_status_code :: int
  response_headers :: "string \<rightharpoonup> string"

definition JSONResponse ::
  "(string \<rightharpoonup> 'v pyvalue) \<Rightarrow> int \<Rightarrow> (string \<rightharpoonup> string) \<Rightarrow> 'v response" where
  "JSONResponse content sc hs =
     \<lparr>response_body = content, response_status_code = sc, response_headers = hs\<rparr>"

text \<open>
  \<open>to_response(self, request)\<close>. Python evaluates the arguments of the call from left
  to right: \<open>self.to_dict()\<close>, then \<open>self.status_code\<close>, then the headers.
\<close>

definition to_response :: "('v, 'c, 'w) exc \<Rightarrow> 'c \<Rightarrow> failure + 'v response" where
  "to_response self request =
     (case to_dict self of
        Inl x \<Rightarrow> Inl x
      | Inr d \<Rightarrow>
          (case status_code (cls self) of
             None \<Rightarrow> Inl (AttributeError ''status_code'')
           | Some sc \<Rightarrow> Inr (JSONResponse d sc [ERROR_TYPE_HEADER \<mapsto> name self])))"

subsection \<open>The handler for the request family\<close>

text \<open>
  \<open>create_http_error_handler()\<close> returns its inner function \<open>handle_error\<close>, which closes
  over nothing: every call of the factory builds a function of the same behaviour, and
  the factory is that function. The inner function: the \<open>isinstance\<close> check,
  \<open>await error.hook(request)\<close> (an exception of the hook propagates),
  \<open>return error.to_response(request)\<close>.
\<close>

definition handle_error_http ::
  "'c \<Rightarrow> ('v, 'c, 'w) exc \<Rightarrow> ('v response, 'w) coroutine" where
  "handle_error_http request error w =
     (if \<not> isinstance_BaseHTTPError error then
        (Inl (TypeError (''Exception `'' @ cls_name (cls error) @ ''` should be derived from `''
                          @ cls_name (BaseHTTPError :: ('v, 'c, 'w) error_cls) @ ''`'')), w)
      else
        (case hook (cls error) (context error) request w of
           (Inl x, w') \<Rightarrow> (Inl x, w')
         | (Inr u, w') \<Rightarrow> (to_response error request, w')))"

definition create_http_error_handler ::
  "'c \<Rightarrow> ('v, 'c, 'w) exc \<Rightarrow> ('v response, 'w) coroutine" where
  "create_http_error_handler = handle_error_http"

subsection \<open>The handler for the connection family\<close>

text \<open>
  The inner function of \<open>create_websocket_error_handler()\<close>: the \<open>isinstance\<close> check,
  \<open>await error.hook(websocket)\<close>, then
  \<open>raise WebSocketException(code=error.code, reason=error.reason)\<close>. It has no
  \<open>return\<close>; its result type is that of a function returning \<open>None\<close>.
\<close>

definition handle_error_websocket ::
  "'c \<Rightarrow> ('v, 'c, 'w) exc \<Rightarrow> (unit, 'w) coroutine" where
  "handle_error_websocket websocket error w =
     (if \<not> isinstance_BaseWebSocketError error then
        (Inl (TypeError (''Exception `'' @ cls_name (cls error) @ ''` should be derived from `''
                          @ cls_name (BaseWebSocketError :: ('v, 'c, 'w) error_cls) @ ''`'')), w)
      else
        (case hook (cls error) (context error) websocket w of
           (Inl x, w') \<Rightarrow> (Inl x, w')
         | (Inr u, w') \<Rightarrow>
             (case code (cls error) of
                None \<Rightarrow> (Inl (AttributeError ''code''), w')
              | Some k \<Rightarrow> (Inl (WebSocketException k (reason (cls error))), w'))))"

definition create_websocket_error_handler ::
  "'c \<Rightarrow> ('v, 'c, 'w) exc \<Rightarrow> (unit, 'w) coroutine" where
  "create_websocket_error_handler = handle_error_websocket"

subsection \<open>Registration\<close>

text \<open>A registered handler is one of the two kinds of function the factories return.\<close>

datatype ('v, 'c, 'w) handler =
    HTTPHandler "'c \<Rightarrow> ('v, 'c, 'w) exc \<Rightarrow> ('v response, 'w) coroutine"
  | WebSocketHandler "'c \<Rightarrow> ('v, 'c, 'w) exc \<Rightarrow> (unit, 'w) coroutine"

text \<open>
  Modelled from the spec: \<open>Starlette.add_exception_handler\<close> belongs to the host
  framework and is not part of the repository. The spec has the host own a registration
  table to which the registrar only appends entries, so the application is the list of
  the registrations it has received, oldest first.
\<close>

type_synonym ('v, 'c, 'w) app = "(('v, 'c, 'w) error_cls \<times> ('v, 'c, 'w) handler) list"

definition add_exception_handler ::
  "('v, 'c, 'w) app \<Rightarrow> ('v, 'c, 'w) error_cls \<Rightarrow> ('v, 'c, 'w) handler \<Rightarrow> ('v, 'c, 'w) app" where
  "add_exception_handler app error_cls h = app @ [(error_cls, h)]"

text \<open>
  \<open>register_errors(app, error_classes)\<close>: the \<open>for\<close> loop over the classes, with the
  application threaded through. The \<open>raise\<close> of the last branch leaves the loop; the
  application keeps what the earlier iterations did to it.
\<close>

fun register_errors ::
  "('v, 'c, 'w) app \<Rightarrow> ('v, 'c, 'w) error_cls list \<Rightarrow> (failure + unit) \<times> ('v, 'c, 'w) app" where
  "register_errors app [] = (Inr (), app)"
| "register_errors app (error_cls # rest) =
     (if derives_BaseHTTPError error_cls then
        register_errors
          (add_exception_handler app error_cls (HTTPHandler create_http_error_handler)) rest
      else if derives_BaseWebSocketError error_cls then
        register_errors
          (add_exception_handler app error_cls (WebSocketHandler create_websocket_error_handler)) rest
      else
        (Inl (TypeError (''Exception `'' @ cls_name error_cls @ '' should be derived from either ''
                          @ ''`'' @ cls_name (BaseHTTPError :: ('v, 'c, 'w) error_cls)
                          @ ''` or `'' @ cls_name (BaseWebSocketError :: ('v, 'c, 'w) error_cls)
                          @ ''`'')), app))"

text \<open>
  The entry the spec prescribes for a class: the request handler when the class is of
  the request family, the connection handler otherwise. It is what the loop is compared
  with below.
\<close>

definition prescribed_entry ::
  "('v, 'c, 'w) error_cls \<Rightarrow> ('v, 'c, 'w) error_cls \<times> ('v, 'c, 'w) handler" where
  "prescribed_entry c =
     (c, if derives_BaseHTTPError c then HTTPHandler create_http_error_handler
         else WebSocketHandler create_websocket_error_handler)"

definition in_a_family :: "('v, 'c, 'w) error_cls \<Rightarrow> bool" where
  "in_a_family c \<longleftrightarrow> derives_BaseHTTPError c \<or> derives_BaseWebSocketError c"

subsection \<open>Example classes\<close>

text \<open>
  The error classes of tests/test\_fastapi.py. Context values are strings, a request is
  its path, and the surroundings are the lines logged so far: the hook of
  \<open>AuthorizationError\<close> logs the message of the class.
\<close>

definition AuthorizationError :: "(string, string, string list) error_cls" where
  "AuthorizationError =
     BaseHTTPError
       \<lparr>cls_name := ''AuthorizationError'',
        message := Some ''Failed to authorize'',
        status_code := Some 401,
        hook := (\<lambda>self request w. (Inr (), w @ [''Failed to authorize'']))\<rparr>"

definition InvalidRequestError :: "(string, string, string list) error_cls" where
  "InvalidRequestError =
     BaseHTTPError
       \<lparr>cls_name := ''InvalidRequestError'',
        message := Some ''Invalid request'',
        status_code := Some 400\<rparr>"

definition NoUserFoundError :: "(string, string, string list) error_cls" where
  "NoUserFoundError =
     BaseHTTPError
       \<lparr>cls_name := ''NoUserFoundError'',
        message := Some ''No such user'',
        status_code := Some 404\<rparr>"

text \<open>
  Classes for the cases the tests do not reach: a connection error that keeps the default
  reason and hook, one whose hook logs, one whose hook raises, a class that derives from
  both bases, and a class that derives from neither.
\<close>

definition GoingAwayError :: "(string, string, string list) error_cls" where
  "GoingAwayError = BaseWebSocketError \<lparr>cls_name := ''GoingAwayError'', code := Some 1001\<rparr>"

definition PolicyViolationError :: "(string, string, string list) error_cls" where
  "PolicyViolationError =
     BaseWebSocketError
       \<lparr>cls_name := ''PolicyViolationError'',
        code := Some 1008,
        reason := Some ''policy violation'',
        hook := (\<lambda>self websocket w. (Inr (), w @ [''closing '' @ websocket]))\<rparr>"

definition BrokenHookError :: "(string, string, string list) error_cls" where
  "BrokenHookError =
     BaseHTTPError
       \<lparr>cls_name := ''BrokenHookError'',
        message := Some ''Broken'',
        status_code := Some 500,
        hook := (\<lambda>self request w. (Inl (OtherException ''RuntimeError''), w @ [''hook started'']))\<rparr>"

definition DualError :: "(string, string, string list) error_cls" where
  "DualError =
     BaseHTTPError
       \<lparr>cls_name := ''DualError'',
        derives_BaseWebSocketError := True,
        message := Some ''Dual'',
        status_code := Some 409,
        code := Some 1011\<rparr>"

definition ValueError :: "(string, string, string list) error_cls" where
  "ValueError =
     \<lparr>cls_name = ''ValueError'',
      derives_BaseHTTPError = False, derives_BaseWebSocketError = False,
      status_code = None, message = None, code = None, reason = None,
      hook = (\<lambda>self request w. (Inr (), w @ [''never logged'']))\<rparr>"

subsection \<open>Theorems: BaseHTTPError\<close>

lemmas example_classes =
  AuthorizationError_def InvalidRequestError_def NoUserFoundError_def GoingAwayError_def
  PolicyViolationError_def BrokenHookError_def DualError_def ValueError_def
  BaseHTTPError_def BaseWebSocketError_def

text \<open>
  C1. For a class of the request family that declares its message, constructing an
  instance with keyword arguments \<open>kwargs\<close> succeeds, and \<open>to_dict\<close> of the instance is
  the dictionary with the key \<open>message\<close> bound to the message of the class and the key
  \<open>context\<close> bound to \<open>kwargs\<close>, whatever \<open>kwargs\<close> is; it has no other key.
\<close>

theorem to_dict_message_context:
  assumes "derives_BaseHTTPError c" and "message c = Some m"
  shows "\<exists>e d. BaseHTTPError_init c kwargs = Inr e \<and> to_dict e = Inr d
           \<and> d = [''message'' \<mapsto> PyStr m, ''context'' \<mapsto> PyDict kwargs]
           \<and> dom d = {''message'', ''context''}"
  using assms by (auto simp: BaseHTTPError_init_def to_dict_def)

theorem to_dict_message_context_witness:
  "derives_BaseHTTPError AuthorizationError
   \<and> message AuthorizationError = Some ''Failed to authorize''
   \<and> (\<exists>e d. BaseHTTPError_init AuthorizationError [''reason'' \<mapsto> ''no token''] = Inr e
         \<and> to_dict e = Inr d
         \<and> d = [''message'' \<mapsto> PyStr ''Failed to authorize'',
                ''context'' \<mapsto> PyDict [''reason'' \<mapsto> ''no token'']]
         \<and> dom d = {''message'', ''context''})"
  using to_dict_message_context
    [of AuthorizationError "''Failed to authorize''" "[''reason'' \<mapsto> ''no token'']"]
  by (simp add: example_classes)

text \<open>
  C2. For an instance of a class of the request family that declares its message and
  its status code, \<open>to_response\<close> returns a response whose status code is the status code
  of the class, whose body is \<open>to_dict\<close> of the instance, and whose header
  \<open>X-Error-Type\<close> is the name of the class of the instance.
\<close>

theorem to_response_status_body_header:
  assumes "isinstance_BaseHTTPError e"
    and "message (cls e) = Some m" and "status_code (cls e) = Some sc"
  shows "\<exists>r. to_response e request = Inr r
           \<and> response_status_code r = sc
           \<and> Inr (response_body r) = to_dict e
           \<and> response_headers r ''X-Error-Type'' = Some (cls_name (cls e))"
  using assms
  by (simp add: to_response_def to_dict_def JSONResponse_def ERROR_TYPE_HEADER_def name_def)

theorem to_response_status_body_header_witness:
  "isinstance_BaseHTTPError \<lparr>cls = NoUserFoundError, context = [''user'' \<mapsto> ''1'']\<rparr>
   \<and> (\<exists>r. to_response \<lparr>cls = NoUserFoundError, context = [''user'' \<mapsto> ''1'']\<rparr> ''/1'' = Inr r
         \<and> response_status_code r = 404
         \<and> Inr (response_body r) = to_dict \<lparr>cls = NoUserFoundError, context = [''user'' \<mapsto> ''1'']\<rparr>
         \<and> response_headers r ''X-Error-Type'' = Some ''NoUserFoundError'')"
  using to_response_status_body_header
    [of "\<lparr>cls = NoUserFoundError, context = [''user'' \<mapsto> ''1'']\<rparr>" "''No such user''" 404 "''/1''"]
  by (simp add: example_classes isinstance_BaseHTTPError_def)

subsection \<open>Theorems: the handlers\<close>

text \<open>
  C4. Given an exception whose class is not of the request family, the request handler
  raises \<open>TypeError\<close> and returns no response. The state of the surroundings is the
  one the handler started in, whatever the hook of the exception would do: the hook is
  not run.
\<close>

theorem http_handler_rejects_foreign_exception:
  assumes "\<not> isinstance_BaseHTTPError error"
  shows "create_http_error_handler request error w =
           (Inl (TypeError (''Exception `'' @ cls_name (cls error)
                             @ ''` should be derived from `BaseHTTPError`'')), w)
         \<and> (\<forall>r. fst (create_http_error_handler request error w) \<noteq> Inr r)"
  using assms
  by (simp add: create_http_error_handler_def handle_error_http_def BaseHTTPError_def)

theorem http_handler_rejects_foreign_exception_witness:
  "\<not> isinstance_BaseHTTPError \<lparr>cls = PolicyViolationError, context = Map.empty\<rparr>
   \<and> create_http_error_handler ''/ws'' \<lparr>cls = PolicyViolationError, context = Map.empty\<rparr> []
       = (Inl (TypeError ''Exception `PolicyViolationError` should be derived from `BaseHTTPError`''), [])
   \<and> hook PolicyViolationError Map.empty ''/ws'' [] = (Inr (), [''closing /ws''])"
  using http_handler_rejects_foreign_exception
    [of "\<lparr>cls = PolicyViolationError, context = Map.empty\<rparr>" "''/ws''" "[]"]
  by (simp add: example_classes isinstance_BaseHTTPError_def)

text \<open>
  C5. Given an exception whose class is not of the connection family, the connection
  handler raises \<open>TypeError\<close>; it raises no \<open>WebSocketException\<close>, and it leaves the
  state of the surroundings as it found it.
\<close>

theorem websocket_handler_rejects_foreign_exception:
  assumes "\<not> isinstance_BaseWebSocketError error"
  shows "create_websocket_error_handler websocket error w =
           (Inl (TypeError (''Exception `'' @ cls_name (cls error)
                             @ ''` should be derived from `BaseWebSocketError`'')), w)
         \<and> (\<forall>k r. fst (create_websocket_error_handler websocket error w)
                     \<noteq> Inl (WebSocketException k r))"
  using assms
  by (simp add: create_websocket_error_handler_def handle_error_websocket_def
      BaseWebSocketError_def)

theorem websocket_handler_rejects_foreign_exception_witness:
  "\<not> isinstance_BaseWebSocketError \<lparr>cls = AuthorizationError, context = [''reason'' \<mapsto> ''no token'']\<rparr>
   \<and> create_websocket_error_handler ''/ws''
         \<lparr>cls = AuthorizationError, context = [''reason'' \<mapsto> ''no token'']\<rparr> []
       = (Inl (TypeError ''Exception `AuthorizationError` should be derived from `BaseWebSocketError`''), [])
   \<and> hook AuthorizationError [''reason'' \<mapsto> ''no token''] ''/ws'' [] = (Inr (), [''Failed to authorize''])"
  using websocket_handler_rejects_foreign_exception
    [of "\<lparr>cls = AuthorizationError, context = [''reason'' \<mapsto> ''no token'']\<rparr>" "''/ws''" "[]"]
  by (simp add: example_classes isinstance_BaseWebSocketError_def)

text \<open>
  C7. The connection handler never returns a value. Given an instance of a class of the
  connection family that declares its close code, once the hook has returned the handler
  raises \<open>WebSocketException\<close> with the close code and the reason of the class, in the
  state the hook left. The reason of \<open>BaseWebSocketError\<close> is \<open>None\<close>.
\<close>

theorem websocket_handler_signals_closure:
  "(\<forall>u. fst (create_websocket_error_handler websocket error w) \<noteq> Inr u)
   \<and> (isinstance_BaseWebSocketError error \<and> code (cls error) = Some k
        \<and> hook (cls error) (context error) websocket w = (Inr (), w')
      \<longrightarrow> create_websocket_error_handler websocket error w
            = (Inl (WebSocketException k (reason (cls error))), w'))
   \<and> reason (BaseWebSocketError :: ('v, 'c, 'w) error_cls) = None"
  by (auto simp: create_websocket_error_handler_def handle_error_websocket_def
      BaseWebSocketError_def split: prod.splits sum.splits option.splits)

theorem websocket_handler_signals_closure_witness:
  "isinstance_BaseWebSocketError \<lparr>cls = PolicyViolationError, context = Map.empty\<rparr>
   \<and> code PolicyViolationError = Some 1008
   \<and> hook PolicyViolationError Map.empty ''/ws'' [] = (Inr (), [''closing /ws''])
   \<and> create_websocket_error_handler ''/ws'' \<lparr>cls = PolicyViolationError, context = Map.empty\<rparr> []
       = (Inl (WebSocketException 1008 (Some ''policy violation'')), [''closing /ws''])
   \<and> create_websocket_error_handler ''/ws'' \<lparr>cls = GoingAwayError, context = Map.empty\<rparr> []
       = (Inl (WebSocketException 1001 None), [])"
  using websocket_handler_signals_closure
    [of "''/ws''" "\<lparr>cls = PolicyViolationError, context = Map.empty\<rparr>" "[]" 1008 "[''closing /ws'']"]
    websocket_handler_signals_closure
    [of "''/ws''" "\<lparr>cls = GoingAwayError, context = Map.empty\<rparr>" "[]" 1001 "[]"]
  by (simp add: example_classes isinstance_BaseWebSocketError_def default_hook_def)

text \<open>
  C8. Both handlers run the same three steps in the same order. On an exception outside
  the expected family the handler raises \<open>TypeError\<close> at once, in the state it started in.
  Otherwise it runs the hook of the exception on the request (or websocket) it was given:
  if the hook raises, the handler ends with that exception, in the state the hook left,
  and the terminal action does not take place; if the hook returns, the request handler
  ends with the outcome of \<open>to_response\<close> and the connection handler with a raised
  exception, the \<open>WebSocketException\<close> of the class when it declares its close code, both
  in exactly the state the hook left: the handlers have no effect of their own.
\<close>

theorem handlers_check_then_hook_then_terminal_action:
  "(\<not> isinstance_BaseHTTPError error \<longrightarrow>
      (\<exists>msg. create_http_error_handler request error w = (Inl (TypeError msg), w)))
   \<and> (isinstance_BaseHTTPError error \<longrightarrow>
        (\<forall>x w'. hook (cls error) (context error) request w = (Inl x, w')
           \<longrightarrow> create_http_error_handler request error w = (Inl x, w'))
      \<and> (\<forall>w'. hook (cls error) (context error) request w = (Inr (), w')
           \<longrightarrow> create_http_error_handler request error w = (to_response error request, w')))
   \<and> (\<not> isinstance_BaseWebSocketError error \<longrightarrow>
        (\<exists>msg. create_websocket_error_handler request error w = (Inl (TypeError msg), w)))
   \<and> (isinstance_BaseWebSocketError error \<longrightarrow>
        (\<forall>x w'. hook (cls error) (context error) request w = (Inl x, w')
           \<longrightarrow> create_websocket_error_handler request error w = (Inl x, w'))
      \<and> (\<forall>w'. hook (cls error) (context error) request w = (Inr (), w')
           \<longrightarrow> (\<exists>x. create_websocket_error_handler request error w = (Inl x, w')
                 \<and> (\<forall>k. code (cls error) = Some k
                       \<longrightarrow> x = WebSocketException k (reason (cls error))))))"
  by (simp add: create_http_error_handler_def handle_error_http_def
      create_websocket_error_handler_def handle_error_websocket_def split: option.splits)

theorem handlers_check_then_hook_then_terminal_action_witness:
  "isinstance_BaseHTTPError \<lparr>cls = BrokenHookError, context = Map.empty\<rparr>
   \<and> hook BrokenHookError Map.empty ''/'' [] = (Inl (OtherException ''RuntimeError''), [''hook started''])
   \<and> create_http_error_handler ''/'' \<lparr>cls = BrokenHookError, context = Map.empty\<rparr> []
       = (Inl (OtherException ''RuntimeError''), [''hook started''])
   \<and> isinstance_BaseHTTPError \<lparr>cls = AuthorizationError, context = Map.empty\<rparr>
   \<and> hook AuthorizationError Map.empty ''/user-1'' [] = (Inr (), [''Failed to authorize''])
   \<and> create_http_error_handler ''/user-1'' \<lparr>cls = AuthorizationError, context = Map.empty\<rparr> []
       = (to_response \<lparr>cls = AuthorizationError, context = Map.empty\<rparr> ''/user-1'',
          [''Failed to authorize''])
   \<and> \<not> isinstance_BaseWebSocketError \<lparr>cls = AuthorizationError, context = Map.empty\<rparr>
   \<and> (\<exists>msg. create_websocket_error_handler ''/user-1''
                \<lparr>cls = AuthorizationError, context = Map.empty\<rparr> [] = (Inl (TypeError msg), []))
   \<and> isinstance_BaseWebSocketError \<lparr>cls = PolicyViolationError, context = Map.empty\<rparr>
   \<and> \<not> isinstance_BaseHTTPError \<lparr>cls = PolicyViolationError, context = Map.empty\<rparr>
   \<and> hook PolicyViolationError Map.empty ''/ws'' [] = (Inr (), [''closing /ws''])
   \<and> (\<exists>x. create_websocket_error_handler ''/ws''
              \<lparr>cls = PolicyViolationError, context = Map.empty\<rparr> [] = (Inl x, [''closing /ws''])
          \<and> x = WebSocketException 1008 (Some ''policy violation''))"
  using handlers_check_then_hook_then_terminal_action
    [of "\<lparr>cls = BrokenHookError, context = Map.empty\<rparr>" "''/''" "[]"]
    handlers_check_then_hook_then_terminal_action
    [of "\<lparr>cls = AuthorizationError, context = Map.empty\<rparr>" "''/user-1''" "[]"]
    handlers_check_then_hook_then_terminal_action
    [of "\<lparr>cls = PolicyViolationError, context = Map.empty\<rparr>" "''/ws''" "[]"]
  by (simp add: example_classes isinstance_BaseHTTPError_def isinstance_BaseWebSocketError_def)

text \<open>
  C9. With the default hook, the outward signal of a handler is a function of the error
  and the request alone: two runs on the same error and the same request, started in any
  two states of the surroundings, end with the same outcome. For an instance of a class
  of the request family that declares message and status code the outcome is a response
  with that status code, the body \<open>{message, context}\<close> and the header \<open>X-Error-Type\<close>;
  for an instance of a class of the connection family that declares its close code it is
  the \<open>WebSocketException\<close> with that code and the reason of the class.
\<close>

theorem handlers_deterministic:
  assumes "hook (cls error) = default_hook"
  shows "fst (create_http_error_handler request error w1)
           = fst (create_http_error_handler request error w2)
         \<and> fst (create_websocket_error_handler request error w1)
           = fst (create_websocket_error_handler request error w2)
         \<and> (isinstance_BaseHTTPError error \<and> message (cls error) = Some m
              \<and> status_code (cls error) = Some sc
            \<longrightarrow> fst (create_http_error_handler request error w1)
                  = Inr \<lparr>response_body =
                           [''message'' \<mapsto> PyStr m, ''context'' \<mapsto> PyDict (context error)],
                         response_status_code = sc,
                         response_headers = [''X-Error-Type'' \<mapsto> cls_name (cls error)]\<rparr>)
         \<and> (isinstance_BaseWebSocketError error \<and> code (cls error) = Some k
            \<longrightarrow> fst (create_websocket_error_handler request error w1)
                  = Inl (WebSocketException k (reason (cls error))))"
  using assms
  by (simp add: create_http_error_handler_def handle_error_http_def
      create_websocket_error_handler_def handle_error_websocket_def default_hook_def
      to_response_def to_dict_def JSONResponse_def ERROR_TYPE_HEADER_def name_def
      split: option.splits)

theorem handlers_deterministic_witness:
  "hook InvalidRequestError = default_hook
   \<and> isinstance_BaseHTTPError \<lparr>cls = InvalidRequestError, context = [''reason'' \<mapsto> ''no user'']\<rparr>
   \<and> fst (create_http_error_handler ''/''
            \<lparr>cls = InvalidRequestError, context = [''reason'' \<mapsto> ''no user'']\<rparr> [])
       = fst (create_http_error_handler ''/''
            \<lparr>cls = InvalidRequestError, context = [''reason'' \<mapsto> ''no user'']\<rparr> [''earlier line''])
   \<and> fst (create_http_error_handler ''/''
            \<lparr>cls = InvalidRequestError, context = [''reason'' \<mapsto> ''no user'']\<rparr> [])
       = Inr \<lparr>response_body = [''message'' \<mapsto> PyStr ''Invalid request'',
                                 ''context'' \<mapsto> PyDict [''reason'' \<mapsto> ''no user'']],
              response_status_code = 400,
              response_headers = [''X-Error-Type'' \<mapsto> ''InvalidRequestError'']\<rparr>
   \<and> hook GoingAwayError = default_hook
   \<and> isinstance_BaseWebSocketError \<lparr>cls = GoingAwayError, context = Map.empty\<rparr>
   \<and> fst (create_websocket_error_handler ''/ws'' \<lparr>cls = GoingAwayError, context = Map.empty\<rparr> [])
       = Inl (WebSocketException 1001 None)"
  using handlers_deterministic
    [of "\<lparr>cls = InvalidRequestError, context = [''reason'' \<mapsto> ''no user'']\<rparr>" "''/''"
        "[]" "[''earlier line'']" "''Invalid request''" 400]
    handlers_deterministic
    [of "\<lparr>cls = GoingAwayError, context = Map.empty\<rparr>" "''/ws''" "[]" "[]" _ _ 1001]
  by (auto simp: example_classes isinstance_BaseHTTPError_def isinstance_BaseWebSocketError_def)

subsection \<open>Theorems: registration\<close>

text \<open>
  What the loop leaves in the application, for any input: the entries of the classes
  before the first class that is of neither family, after what was there.
\<close>

lemma register_errors_table:
  "snd (register_errors app error_classes)
     = app @ map prescribed_entry (takeWhile in_a_family error_classes)"
  by (induction error_classes arbitrary: app)
    (simp_all add: add_exception_handler_def prescribed_entry_def in_a_family_def)

lemma register_errors_returns:
  "list_all in_a_family error_classes \<Longrightarrow> fst (register_errors app error_classes) = Inr ()"
  by (induction error_classes arbitrary: app) (auto simp: in_a_family_def)

lemma register_errors_skips_family_prefix:
  "list_all in_a_family pre \<Longrightarrow>
     register_errors app (pre @ rest) = register_errors (app @ map prescribed_entry pre) rest"
  by (induction pre arbitrary: app)
    (auto simp: add_exception_handler_def prescribed_entry_def in_a_family_def)

text \<open>
  C3. For every list of classes, what the registrar leaves in the application is what
  was there followed by one entry per class, in the order of the input and with
  repetitions kept, up to the first class of neither family: the request handler for a
  class of the request family, else the connection handler. When every class is of a
  family the registrar gets through the whole list and returns \<open>None\<close>.
\<close>

theorem register_errors_appends_in_order:
  "snd (register_errors app error_classes)
     = app @ map prescribed_entry (takeWhile in_a_family error_classes)
   \<and> ((\<forall>c \<in> set error_classes. in_a_family c) \<longrightarrow>
        register_errors app error_classes = (Inr (), app @ map prescribed_entry error_classes))"
proof (intro conjI impI)
  show "snd (register_errors app error_classes)
          = app @ map prescribed_entry (takeWhile in_a_family error_classes)"
    by (rule register_errors_table)
next
  assume all: "\<forall>c \<in> set error_classes. in_a_family c"
  then have whole: "takeWhile in_a_family error_classes = error_classes"
    by simp
  have "snd (register_errors app error_classes) = app @ map prescribed_entry error_classes"
    by (simp only: register_errors_table whole)
  moreover from all have "fst (register_errors app error_classes) = Inr ()"
    by (simp add: register_errors_returns list_all_iff)
  ultimately show "register_errors app error_classes
                     = (Inr (), app @ map prescribed_entry error_classes)"
    by (simp add: prod_eq_iff)
qed

theorem register_errors_appends_in_order_witness:
  "in_a_family AuthorizationError \<and> in_a_family PolicyViolationError
   \<and> register_errors [(NoUserFoundError, HTTPHandler create_http_error_handler)]
        [AuthorizationError, PolicyViolationError, AuthorizationError]
       = (Inr (), [(NoUserFoundError, HTTPHandler create_http_error_handler),
                   (AuthorizationError, HTTPHandler create_http_error_handler),
                   (PolicyViolationError, WebSocketHandler create_websocket_error_handler),
                   (AuthorizationError, HTTPHandler create_http_error_handler)])"
  using register_errors_appends_in_order
    [of "[(NoUserFoundError, HTTPHandler create_http_error_handler)]"
        "[AuthorizationError, PolicyViolationError, AuthorizationError]"]
  by (simp add: example_classes in_a_family_def prescribed_entry_def)

text \<open>
  C6. When the input holds a class of neither family, the registrar raises \<open>TypeError\<close>.
  It does so at the first such class: the message contains the name of that class and the
  names of both base classes, and the application holds the entries of the classes
  before it, which are all of a family.
\<close>

theorem register_errors_rejects_foreign_class:
  assumes "c \<in> set error_classes" and "\<not> in_a_family c"
  shows "\<exists>pre c' post msg.
           error_classes = pre @ c' # post
           \<and> (\<forall>p \<in> set pre. in_a_family p) \<and> \<not> in_a_family c'
           \<and> register_errors app error_classes
               = (Inl (TypeError msg), app @ map prescribed_entry pre)
           \<and> msg = ''Exception `'' @ cls_name c'
                     @ '' should be derived from either `BaseHTTPError` or `BaseWebSocketError`''
           \<and> sublist (cls_name c') msg
           \<and> sublist ''BaseHTTPError'' msg
           \<and> sublist ''BaseWebSocketError'' msg"
proof -
  from assms have "\<exists>x \<in> set error_classes. \<not> in_a_family x"
    by blast
  then have "\<exists>pre c' post. error_classes = pre @ c' # post \<and> \<not> in_a_family c'
               \<and> (\<forall>p \<in> set pre. \<not> \<not> in_a_family p)"
    by (rule split_list_first_prop)
  then obtain pre c' post where
    split: "error_classes = pre @ c' # post" and
    foreign: "\<not> in_a_family c'" and
    before: "\<forall>p \<in> set pre. in_a_family p"
    by auto
  let ?head = "''Exception `'' @ cls_name c' @ '' should be derived from either `''"
  let ?msg = "''Exception `'' @ cls_name c'
                @ '' should be derived from either `BaseHTTPError` or `BaseWebSocketError`''"
  from before have "list_all in_a_family pre"
    by (simp add: list_all_iff)
  then have "register_errors app (pre @ c' # post)
               = register_errors (app @ map prescribed_entry pre) (c' # post)"
    by (rule register_errors_skips_family_prefix)
  with foreign split have run: "register_errors app error_classes
                                  = (Inl (TypeError ?msg), app @ map prescribed_entry pre)"
    by (simp add: in_a_family_def BaseHTTPError_def BaseWebSocketError_def)
  have "?msg = ''Exception `'' @ cls_name c'
                 @ '' should be derived from either `BaseHTTPError` or `BaseWebSocketError`''"
    by simp
  then have n1: "sublist (cls_name c') ?msg"
    by (metis sublist_appendI)
  have "?msg = ?head @ ''BaseHTTPError'' @ ''` or `BaseWebSocketError`''"
    by simp
  then have n2: "sublist ''BaseHTTPError'' ?msg"
    by (metis sublist_appendI)
  have "?msg = (?head @ ''BaseHTTPError` or `'') @ ''BaseWebSocketError'' @ ''`''"
    by simp
  then have n3: "sublist ''BaseWebSocketError'' ?msg"
    by (metis sublist_appendI)
  from split before foreign run n1 n2 n3 show ?thesis
    by blast
qed

theorem register_errors_rejects_foreign_class_witness:
  "ValueError \<in> set [AuthorizationError, ValueError, NoUserFoundError]
   \<and> \<not> in_a_family ValueError
   \<and> register_errors [] [AuthorizationError, ValueError, NoUserFoundError]
       = (Inl (TypeError
            ''Exception `ValueError should be derived from either `BaseHTTPError` or `BaseWebSocketError`''),
          [(AuthorizationError, HTTPHandler create_http_error_handler)])"
  using register_errors_rejects_foreign_class
    [of ValueError "[AuthorizationError, ValueError, NoUserFoundError]" "[]"]
  by (simp add: example_classes in_a_family_def add_exception_handler_def)

text \<open>
  C10. A class that derives from both base classes is registered with the request
  handler: when the classes before it are all of a family, the entry the registrar adds
  for it, at its position in the table, holds the request handler; and for no input
  does the registrar add an entry that binds such a class to a connection handler.
\<close>

theorem register_errors_both_families_http:
  assumes "derives_BaseHTTPError c" and "derives_BaseWebSocketError c"
  shows "((\<forall>p \<in> set pre. in_a_family p) \<longrightarrow>
            snd (register_errors app (pre @ c # post)) ! (length app + length pre)
              = (c, HTTPHandler create_http_error_handler))
         \<and> (\<forall>h. (c, WebSocketHandler h)
                   \<notin> set (drop (length app) (snd (register_errors app error_classes))))"
proof (intro conjI impI allI)
  assume before: "\<forall>p \<in> set pre. in_a_family p"
  with assms(1) have "takeWhile in_a_family (pre @ c # post)
                        = pre @ c # takeWhile in_a_family post"
    by (simp add: in_a_family_def)
  then have "snd (register_errors app (pre @ c # post))
               = (app @ map prescribed_entry pre)
                 @ prescribed_entry c # map prescribed_entry (takeWhile in_a_family post)"
    by (simp add: register_errors_table)
  moreover have "length (app @ map prescribed_entry pre) = length app + length pre"
    by simp
  ultimately have "snd (register_errors app (pre @ c # post)) ! (length app + length pre)
                     = prescribed_entry c"
    by (metis nth_append_length)
  with assms(1) show "snd (register_errors app (pre @ c # post)) ! (length app + length pre)
                        = (c, HTTPHandler create_http_error_handler)"
    by (simp add: prescribed_entry_def)
next
  fix h
  have "drop (length app) (snd (register_errors app error_classes))
          = map prescribed_entry (takeWhile in_a_family error_classes)"
    by (simp add: register_errors_table)
  moreover have "(c, WebSocketHandler h) \<notin> range prescribed_entry"
    using assms(1) by (auto simp: prescribed_entry_def)
  ultimately show "(c, WebSocketHandler h)
                     \<notin> set (drop (length app) (snd (register_errors app error_classes)))"
    by auto
qed

theorem register_errors_both_families_http_witness:
  "derives_BaseHTTPError DualError \<and> derives_BaseWebSocketError DualError
   \<and> in_a_family PolicyViolationError
   \<and> snd (register_errors [] ([PolicyViolationError] @ DualError # [])) ! (0 + 1)
       = (DualError, HTTPHandler create_http_error_handler)
   \<and> register_errors [] [DualError] = (Inr (), [(DualError, HTTPHandler create_http_error_handler)])"
  using register_errors_both_families_http [of DualError "[PolicyViolationError]" "[]" "[]"]
  by (simp add: example_classes in_a_family_def add_exception_handler_def)

end
